theory Spec2Isabelle
  imports Main
begin

section \<open>Python strings\<close>

text \<open>
  A Python \<^verbatim>\<open>str\<close> is a sequence of Unicode code points, so it is modelled as a list
  of naturals. \<open>lit\<close> turns an ASCII literal into such a string; characters outside
  printable ASCII are written as their code point.
\<close>

type_synonym pystr = "nat list"

definition lit :: "string \<Rightarrow> pystr" where
  "lit s = map of_char s"

text \<open>
  \<^verbatim>\<open>str.isspace\<close> for one character: the code points for which CPython's
  \<^verbatim>\<open>_PyUnicode_IsWhitespace\<close> answers true.
\<close>

definition py_isspace :: "nat \<Rightarrow> bool" where
  "py_isspace c \<longleftrightarrow>
     (9 \<le> c \<and> c \<le> 13) \<or> (28 \<le> c \<and> c \<le> 32) \<or> c = 133 \<or> c = 160 \<or> c = 5760 \<or>
     (8192 \<le> c \<and> c \<le> 8202) \<or> c = 8232 \<or> c = 8233 \<or> c = 8239 \<or> c = 8287 \<or>
     c = 12288"

text \<open>\<^verbatim>\<open>s.strip()\<close>: leading and trailing whitespace removed.\<close>

definition py_strip :: "pystr \<Rightarrow> pystr" where
  "py_strip s = rev (dropWhile py_isspace (rev (dropWhile py_isspace s)))"

text \<open>\<^verbatim>\<open>sep.join(xs)\<close>.\<close>

fun py_join :: "pystr \<Rightarrow> pystr list \<Rightarrow> pystr" where
  "py_join sep [] = []"
| "py_join sep [x] = x"
| "py_join sep (x # y # ys) = x @ sep @ py_join sep (y # ys)"

text \<open>
  \<^verbatim>\<open>str(n)\<close> (and \<^verbatim>\<open>f"{n}"\<close>) for a non-negative integer: its decimal digits,
  most significant first.
\<close>

fun py_str_nat :: "nat \<Rightarrow> pystr" where
  "py_str_nat n = (if n < 10 then [48 + n] else py_str_nat (n div 10) @ [48 + n mod 10])"

declare py_str_nat.simps [simp del]

text \<open>Reading a decimal numeral back, used to state which number a label shows.\<close>

definition nat_of_decimal :: "pystr \<Rightarrow> nat" where
  "nat_of_decimal ds = foldl (\<lambda>a c. 10 * a + (c - 48)) 0 ds"

text \<open>
  \<^verbatim>\<open>os.path.basename\<close> as \<^verbatim>\<open>posixpath\<close> implements it: everything after the last
  slash (code point 47).
\<close>

definition basename :: "pystr \<Rightarrow> pystr" where
  "basename p = rev (takeWhile (\<lambda>c. c \<noteq> 47) (rev p))"

section \<open>Data model\<close>

text \<open>
  Exceptions, all subclasses of \<^verbatim>\<open>Exception\<close>: the classes the code or its
  libraries raise at the places modelled here; \<open>OtherException\<close> stands for any other
  subclass, with the text \<^verbatim>\<open>str(e)\<close> gives for it.
\<close>

datatype exn = FileNotFoundError | JSONDecodeError | UnicodeDecodeError | AttributeError
  | TypeError | ValidationError | UnicodeEncodeError | OtherException pystr

text \<open>A retrieved passage: a LangChain \<^verbatim>\<open>Document\<close>. A dict is an association list.\<close>

record doc =
  page_content :: pystr
  metadata :: "(pystr \<times> pystr) list"

text \<open>\<^verbatim>\<open>d.get(k, default)\<close>; the first binding of a key is the dict's value for it.\<close>

definition dict_get :: "(pystr \<times> 'v) list \<Rightarrow> pystr \<Rightarrow> 'v \<Rightarrow> 'v" where
  "dict_get d k dflt = (case map_of d k of None \<Rightarrow> dflt | Some v \<Rightarrow> v)"

text \<open>
  The values a result dict holds: a string, a list of documents (\<open>Docs []\<close> is the empty
  list), or any other object, kept as the text \<^verbatim>\<open>str()\<close> gives for it.
\<close>

datatype pyval = Str pystr | Docs "doc list" | Obj pystr

text \<open>
  What a strategy chain hands back: a dict, a string, or any other object (again as its
  \<^verbatim>\<open>str()\<close> text).
\<close>

datatype chain_output = OutDict "(pystr \<times> pyval) list" | OutStr pystr | OutObj pystr

text \<open>The dict \<^verbatim>\<open>{"answer": ..., "source_documents": ...}\<close> the entrypoint returns.\<close>

record response =
  answer :: pyval
  source_documents :: pyval

text \<open>
  The Pydantic class \<^verbatim>\<open>RouteQuery\<close>: its only field is typed
  \<^verbatim>\<open>Literal["pertinente", "non_pertinente", "conversazionale"]\<close>, so an object of the
  class holds one of these three labels and nothing else.
\<close>

datatype route_label = Pertinente | Non_pertinente | Conversazionale

datatype RouteQuery = RouteQuery (destination: route_label)

text \<open>The string a label is.\<close>

fun label_text :: "route_label \<Rightarrow> pystr" where
  "label_text Pertinente = lit ''pertinente''"
| "label_text Non_pertinente = lit ''non_pertinente''"
| "label_text Conversazionale = lit ''conversazionale''"

text \<open>
  \<^verbatim>\<open>RouteQuery(destination=s)\<close>: Pydantic checks the value against the literal type and
  raises a validation error for any other string.
\<close>

definition new_RouteQuery :: "pystr \<Rightarrow> exn + RouteQuery" where
  "new_RouteQuery s =
     (if s = lit ''pertinente'' then Inr (RouteQuery Pertinente)
      else if s = lit ''non_pertinente'' then Inr (RouteQuery Non_pertinente)
      else if s = lit ''conversazionale'' then Inr (RouteQuery Conversazionale)
      else Inl ValidationError)"

text \<open>
  The collaborators. Each is a call that returns or raises. \<open>llm\<close> is the main model
  followed by \<^verbatim>\<open>StrOutputParser\<close> (prompt text to answer text). \<open>router_llm\<close> is the
  routing model asked to fill in a \<^verbatim>\<open>RouteQuery\<close>: it answers with the string it puts
  in \<^verbatim>\<open>destination\<close>, or with no such answer at all (\<open>None\<close>). \<open>retriever\<close> is the
  \<^verbatim>\<open>ContextualCompressionRetriever\<close>.
\<close>

type_synonym llm = "pystr \<Rightarrow> exn + pystr"
type_synonym router_llm = "pystr \<Rightarrow> exn + pystr option"
type_synonym retriever = "pystr \<Rightarrow> exn + doc list"

text \<open>
  \<^verbatim>\<open>llm.with_structured_output(RouteQuery)\<close>: the model's answer is turned into a
  \<^verbatim>\<open>RouteQuery\<close> object; no answer gives \<^verbatim>\<open>None\<close>.
\<close>

definition with_structured_output :: "router_llm \<Rightarrow> pystr \<Rightarrow> exn + RouteQuery option" where
  "with_structured_output model prompt =
     (case model prompt of
        Inl e \<Rightarrow> Inl e
      | Inr None \<Rightarrow> Inr None
      | Inr (Some s) \<Rightarrow>
          (case new_RouteQuery s of Inl e \<Rightarrow> Inl e | Inr rq \<Rightarrow> Inr (Some rq)))"

text \<open>
  Standard output. \<open>Line t\<close> is a \<^verbatim>\<open>print\<close> of the text \<open>t\<close>; \<open>ErrorLine e\<close> is the
  \<^verbatim>\<open>print\<close> of the error line of \<^verbatim>\<open>get_response\<close>, whose text ends with
  \<^verbatim>\<open>str(e)\<close>. A \<^verbatim>\<open>print\<close> returns, or raises when the stream cannot encode the text.
\<close>

datatype printed = Line pystr | ErrorLine exn

type_synonym stdout = "printed \<Rightarrow> exn + unit"

text \<open>
  The values the knowledge scope can hold after \<^verbatim>\<open>json.load\<close>, as far as the code
  looks at them: a list (each item by the text \<^verbatim>\<open>str()\<close> gives for it; a string item
  is its own text), a string, a dict (by its keys), a number (of which only being zero
  or not is asked), a boolean, or \<^verbatim>\<open>None\<close>.
\<close>

datatype scope_value = PyList "pystr list" | PyStr pystr | PyDict "pystr list"
  | PyNumber bool | PyBool bool | PyNone

text \<open>Truth of a value, as \<^verbatim>\<open>if v:\<close> tests it (\<open>PyNumber b\<close>: \<open>b\<close> says non-zero).\<close>

fun truthy :: "scope_value \<Rightarrow> bool" where
  "truthy (PyList xs) = (xs \<noteq> [])"
| "truthy (PyStr s) = (s \<noteq> [])"
| "truthy (PyDict ks) = (ks \<noteq> [])"
| "truthy (PyNumber nonzero) = nonzero"
| "truthy (PyBool b) = b"
| "truthy PyNone = False"

text \<open>\<^verbatim>\<open>len(v)\<close>: numbers, booleans and \<^verbatim>\<open>None\<close> have no length.\<close>

fun py_len :: "scope_value \<Rightarrow> exn + nat" where
  "py_len (PyList xs) = Inr (length xs)"
| "py_len (PyStr s) = Inr (length s)"
| "py_len (PyDict ks) = Inr (length ks)"
| "py_len (PyNumber nonzero) = Inl TypeError"
| "py_len (PyBool b) = Inl TypeError"
| "py_len PyNone = Inl TypeError"

text \<open>Every call to a collaborator is recorded, with the input it received.\<close>

datatype call = RouterCall pystr | MainCall pystr | RetrieverCall pystr

text \<open>The collaborators a chain captured when it was built.\<close>

record chain =
  ch_llm_main :: llm
  ch_llm_router :: router_llm
  ch_retriever :: retriever

text \<open>The attributes of \<^verbatim>\<open>RAGBackend\<close>.\<close>

record backend =
  llm_main :: "llm option"
  llm_router :: "router_llm option"
  compression_retriever :: "retriever option"
  knowledge_scope :: scope_value
  full_chain :: "chain option"

section \<open>Fixed texts\<close>

definition msg_invalid_query :: pystr where
  "msg_invalid_query =
     lit ''Per favore, inserisci una domanda valida.''"

definition msg_unavailable :: pystr where
  "msg_unavailable =
     lit ''Sistema non disponibile. Riprova pi'' @
     [249] @
     lit '' tardi.''"

definition msg_technical_error :: pystr where
  "msg_technical_error =
     lit ''Mi dispiace, si '' @
     [232] @
     lit '' verificato un errore tecnico. Per favore riprova.''"

definition msg_processing_head :: pystr where
  "msg_processing_head =
     [128269] @
     lit '' Elaborazione query: ''"

definition msg_no_answer :: pystr where
  "msg_no_answer =
     lit ''Risposta non disponibile.''"

definition msg_no_documents :: pystr where
  "msg_no_documents =
     lit ''Nessun documento trovato.''"

definition msg_no_scope :: pystr where
  "msg_no_scope =
     lit ''Nessun ambito specifico definito.''"

definition unknown_source :: pystr where
  "unknown_source =
     lit ''Fonte sconosciuta''"

definition docs_separator :: pystr where
  "docs_separator =
     [10, 10] @
     lit ''---'' @
     [10, 10]"

definition bullet :: pystr where
  "bullet =
     [8226] @
     lit '' ''"

definition more_head :: pystr where
  "more_head =
     [10, 8226] @
     lit '' ... e altri ''"

definition more_tail :: pystr where
  "more_tail =
     lit '' argomenti correlati''"

text \<open>The prompt templates, cut at their placeholders.\<close>

definition conversational_template_head :: pystr where
  "conversational_template_head =
     lit ''Sei un assistente AI cordiale di nome Agente AI specializzato in norma'' @
     lit ''tive alimentari. Rispondi in modo amichevole e conciso alla seguente i'' @
     lit ''nterazione: ''"

definition refusal_template_head :: pystr where
  "refusal_template_head =
     lit ''Sei un assistente AI specializzato in legislazione alimentare.'' @
     [10] @
     lit ''Non sono in grado di rispondere alla domanda: '' @
     [39]"

definition refusal_template_mid :: pystr where
  "refusal_template_mid =
     [39, 10, 10] @
     lit ''La mia conoscenza '' @
     [232] @
     lit '' limitata esclusivamente ai documenti forniti nella mia base dati.'' @
     [10] @
     lit ''Per ottenere risposte accurate, ti suggerisco di formulare domande sug'' @
     lit ''li argomenti che conosco bene.'' @
     [10, 10] @
     lit ''I principali argomenti su cui posso aiutarti includono:'' @
     [10]"

definition refusal_template_tail :: pystr where
  "refusal_template_tail =
     [10, 10] @
     lit ''Per favore, riformula la tua domanda focalizzandoti su uno di questi t'' @
     lit ''emi specifici.''"

definition rag_template_head :: pystr where
  "rag_template_head =
     lit ''Sei '' @
     [34] @
     lit ''Agente AI'' @
     [34] @
     lit '', un consulente esperto di legislazione alimentare.'' @
     [10, 10] @
     lit ''ISTRUZIONI OPERATIVE:'' @
     [10] @
     lit ''1. Analizza attentamente il contesto fornito dai documenti numerati [d'' @
     lit ''oc-1], [doc-2], ecc.'' @
     [10] @
     lit ''2. Rispondi ESCLUSIVAMENTE basandoti su questi documenti ufficiali.'' @
     [10] @
     lit ''3. CITAZIONI OBBLIGATORIE: Dopo ogni affermazione specifica, cita imme'' @
     lit ''diatamente la fonte usando [doc-N]. Esempio: '' @
     [34] @
     lit ''Il limite massimo '' @
     [232] @
     lit '' 5 mg/kg [doc-2].'' @
     [34, 10] @
     lit ''4. Per affermazioni supportate da pi'' @
     [249] @
     lit '' fonti, cita tutte: '' @
     [34] @
     lit ''L'' @
     [39] @
     lit ''etichettatura deve essere chiara [doc-1, doc-3].'' @
     [34, 10] @
     lit ''5. NON raggruppare le citazioni alla fine - devono essere integrate ne'' @
     lit ''l testo.'' @
     [10] @
     lit ''6. Se le informazioni non sono sufficienti, dichiara: '' @
     [34] @
     lit ''Le informazioni disponibili nei documenti non sono sufficienti per ris'' @
     lit ''pondere completamente.'' @
     [34, 10, 10] @
     lit ''CONTESTO DOCUMENTALE:'' @
     [10]"

definition rag_template_mid :: pystr where
  "rag_template_mid =
     [10, 10] @
     lit ''DOMANDA:'' @
     [10]"

definition rag_template_tail :: pystr where
  "rag_template_tail =
     [10, 10] @
     lit ''RISPOSTA PROFESSIONALE CON CITAZIONI INLINE:''"

definition route_template_head :: pystr where
  "route_template_head =
     lit ''Classifica la seguente query per un assistente di legislazione alimentare: '' @
     [39]"

definition route_template_tail :: pystr where
  "route_template_tail =
     [39, 10, 10] @
     lit ''CRITERI DI CLASSIFICAZIONE:'' @
     [10] @
     lit ''- '' @
     [34] @
     lit ''pertinente'' @
     [34] @
     lit '': domande su normative alimentari, sicurezza, etichettatura, additivi, ecc.'' @
     [10] @
     lit ''- '' @
     [34] @
     lit ''conversazionale'' @
     [34] @
     lit '': saluti, ringraziamenti, domande sull'' @
     [39] @
     lit ''assistente.'' @
     [10] @
     lit ''- '' @
     [34] @
     lit ''non_pertinente'' @
     [34] @
     lit '': qualsiasi altra cosa (sport, politica, storia, ecc.).''"

section \<open>Formatting\<close>

text \<open>\<^verbatim>\<open>format_docs_with_ids\<close>: the source name shown for a passage.\<close>

definition source_name :: "doc \<Rightarrow> pystr" where
  "source_name d =
     (let source_info = dict_get (metadata d) (lit ''source'') unknown_source
      in if source_info \<noteq> unknown_source then basename source_info else source_info)"

text \<open>The block appended for the passage that \<^verbatim>\<open>enumerate\<close> numbers \<open>i\<close>.\<close>

definition format_doc :: "nat \<Rightarrow> doc \<Rightarrow> pystr" where
  "format_doc i d =
     lit ''Contenuto dal documento [doc-'' @ py_str_nat (i + 1) @ lit ''] ('' @
     source_name d @ lit ''):'' @ [10] @ py_strip (page_content d)"

text \<open>The loop over \<^verbatim>\<open>enumerate(docs)\<close>, from counter \<open>i\<close>.\<close>

fun formatted_docs :: "nat \<Rightarrow> doc list \<Rightarrow> pystr list" where
  "formatted_docs i [] = []"
| "formatted_docs i (d # ds) = format_doc i d # formatted_docs (i + 1) ds"

definition format_docs_with_ids :: "doc list \<Rightarrow> pystr" where
  "format_docs_with_ids docs =
     (if docs = [] then msg_no_documents
      else py_join docs_separator (formatted_docs 0 docs))"

text \<open>\<^verbatim>\<open>_format_knowledge_scope\<close>, for a scope that is a list.\<close>

definition format_knowledge_scope :: "pystr list \<Rightarrow> pystr" where
  "format_knowledge_scope scope =
     (if scope = [] then msg_no_scope
      else
        let scope_items = take 8 scope;
            formatted = py_join [10] (map (\<lambda>item. bullet @ item) scope_items)
        in if length scope > 8
           then formatted @ more_head @ py_str_nat (length scope - 8) @ more_tail
           else formatted)"

text \<open>
  \<^verbatim>\<open>_format_knowledge_scope\<close>, for any value the scope holds. A string is sliced and
  iterated character by character, so it reads as the list of its one-character
  strings. A value that is true but is neither a list nor a string cannot be sliced:
  \<^verbatim>\<open>self.knowledge_scope[:8]\<close> raises (a \<^verbatim>\<open>TypeError\<close>; for a dict, from Python 3.12
  on, a \<^verbatim>\<open>KeyError\<close>, which no handler tells apart).
\<close>

definition format_scope_value :: "scope_value \<Rightarrow> exn + pystr" where
  "format_scope_value v =
     (if \<not> truthy v then Inr msg_no_scope
      else case v of
        PyList items \<Rightarrow> Inr (format_knowledge_scope items)
      | PyStr s \<Rightarrow> Inr (format_knowledge_scope (map (\<lambda>c. [c]) s))
      | _ \<Rightarrow> Inl TypeError)"

section \<open>The strategy chains\<close>

text \<open>
  Running a chain gives what it returns or the exception it raises, together with the
  calls it made to the collaborators, in order. A prompt template is filled by
  concatenation at its placeholders.
\<close>

type_synonym 'a run = "(exn + 'a) \<times> call list"

text \<open>
  \<^verbatim>\<open>_build_classification_chain\<close>: the routing prompt, the structured model, then
  \<^verbatim>\<open>lambda x: x.destination if x else "non_pertinente"\<close>.
\<close>

definition classification_chain :: "chain \<Rightarrow> pystr \<Rightarrow> pystr run" where
  "classification_chain ch query =
     (let prompt = route_template_head @ query @ route_template_tail
      in case with_structured_output (ch_llm_router ch) prompt of
           Inl e \<Rightarrow> (Inl e, [RouterCall prompt])
         | Inr x \<Rightarrow>
             (Inr (case x of
                     Some rq \<Rightarrow> label_text (destination rq)
                   | None \<Rightarrow> lit ''non_pertinente''),
              [RouterCall prompt]))"

text \<open>\<^verbatim>\<open>_build_conversational_chain\<close>.\<close>

definition conversational_chain :: "chain \<Rightarrow> pystr \<Rightarrow> chain_output run" where
  "conversational_chain ch query =
     (let prompt = conversational_template_head @ query
      in case ch_llm_main ch prompt of
           Inl e \<Rightarrow> (Inl e, [MainCall prompt])
         | Inr text \<Rightarrow> (Inr (OutStr text), [MainCall prompt]))"

text \<open>
  \<^verbatim>\<open>_build_refusal_chain\<close>. The scope is read from the backend when the chain runs;
  if formatting it raises, the model is not called.
\<close>

definition refusal_chain :: "chain \<Rightarrow> scope_value \<Rightarrow> pystr \<Rightarrow> chain_output run" where
  "refusal_chain ch scope query =
     (case format_scope_value scope of
        Inl e \<Rightarrow> (Inl e, [])
      | Inr scope_text \<Rightarrow>
          (let prompt = refusal_template_head @ query @ refusal_template_mid @
                        scope_text @ refusal_template_tail
           in case ch_llm_main ch prompt of
                Inl e \<Rightarrow> (Inl e, [MainCall prompt])
              | Inr text \<Rightarrow> (Inr (OutStr text), [MainCall prompt])))"

text \<open>
  \<^verbatim>\<open>_build_rag_chain\<close>: retrieve, format the context, generate, and pick
  \<^verbatim>\<open>answer\<close> and \<^verbatim>\<open>source_documents\<close>.
\<close>

definition rag_chain :: "chain \<Rightarrow> pystr \<Rightarrow> chain_output run" where
  "rag_chain ch query =
     (case ch_retriever ch query of
        Inl e \<Rightarrow> (Inl e, [RetrieverCall query])
      | Inr source_docs \<Rightarrow>
          (let context = format_docs_with_ids source_docs;
               prompt = rag_template_head @ context @ rag_template_mid @ query @
                        rag_template_tail
           in case ch_llm_main ch prompt of
                Inl e \<Rightarrow> (Inl e, [RetrieverCall query, MainCall prompt])
              | Inr text \<Rightarrow>
                  (Inr (OutDict [(lit ''answer'', Str text),
                                 (lit ''source_documents'', Docs source_docs)]),
                   [RetrieverCall query, MainCall prompt])))"

text \<open>
  The \<^verbatim>\<open>RunnableBranch\<close>: the first condition that holds selects the chain, the
  refusal chain is the default.
\<close>

definition branch :: "chain \<Rightarrow> scope_value \<Rightarrow> pystr \<Rightarrow> pystr \<Rightarrow> chain_output run" where
  "branch ch scope dest query =
     (if dest = lit ''pertinente'' then rag_chain ch query
      else if dest = lit ''conversazionale'' then conversational_chain ch query
      else refusal_chain ch scope query)"

text \<open>\<^verbatim>\<open>full_chain.invoke({"query": query})\<close>: classify, then branch.\<close>

definition invoke_full_chain :: "chain \<Rightarrow> scope_value \<Rightarrow> pystr \<Rightarrow> chain_output run" where
  "invoke_full_chain ch scope query =
     (case classification_chain ch query of
        (Inl e, log) \<Rightarrow> (Inl e, log)
      | (Inr dest, log) \<Rightarrow>
          (case branch ch scope dest query of (r, log') \<Rightarrow> (r, log @ log')))"

section \<open>The entrypoint\<close>

text \<open>\<^verbatim>\<open>_normalize_response\<close>.\<close>

fun normalize_response :: "chain_output \<Rightarrow> response" where
  "normalize_response (OutDict result) =
     \<lparr>answer = dict_get result (lit ''answer'') (Str msg_no_answer),
      source_documents = dict_get result (lit ''source_documents'') (Docs [])\<rparr>"
| "normalize_response (OutStr s) = \<lparr>answer = Str s, source_documents = Docs []\<rparr>"
| "normalize_response (OutObj s) = \<lparr>answer = Str s, source_documents = Docs []\<rparr>"

text \<open>
  The \<^verbatim>\<open>try\<close> block of \<^verbatim>\<open>get_response\<close>: print the first fifty characters of the
  query, invoke the chain on the stripped query, normalise. It returns the response or
  the exception that left it, with the calls made.
\<close>

definition try_block :: "stdout \<Rightarrow> chain \<Rightarrow> scope_value \<Rightarrow> pystr \<Rightarrow> response run" where
  "try_block out ch scope query =
     (case out (Line (msg_processing_head @ take 50 query @ lit ''...'')) of
        Inl e \<Rightarrow> (Inl e, [])
      | Inr u \<Rightarrow>
          (case invoke_full_chain ch scope (py_strip query) of
             (Inr result, log) \<Rightarrow> (Inr (normalize_response result), log)
           | (Inl e, log) \<Rightarrow> (Inl e, log)))"

text \<open>
  \<^verbatim>\<open>get_response\<close>, with the calls made on the way. The handler prints the error line
  and returns the technical-error answer; an exception raised by that \<^verbatim>\<open>print\<close> leaves
  the method. (\<^verbatim>\<open>traceback.print_exc\<close> writes to standard error, which escapes what it
  cannot encode.)
\<close>

definition get_response :: "stdout \<Rightarrow> backend \<Rightarrow> pystr \<Rightarrow> response run" where
  "get_response out self query =
     (if query = [] \<or> py_strip query = []
      then (Inr \<lparr>answer = Str msg_invalid_query, source_documents = Docs []\<rparr>, [])
      else case full_chain self of
        None \<Rightarrow> (Inr \<lparr>answer = Str msg_unavailable, source_documents = Docs []\<rparr>, [])
      | Some ch \<Rightarrow>
          (case try_block out ch (knowledge_scope self) query of
             (Inr r, log) \<Rightarrow> (Inr r, log)
           | (Inl e, log) \<Rightarrow>
               (case out (ErrorLine e) of
                  Inl e' \<Rightarrow> (Inl e', log)
                | Inr u \<Rightarrow>
                    (Inr \<lparr>answer = Str msg_technical_error, source_documents = Docs []\<rparr>,
                     log))))"

section \<open>Start-up and the knowledge scope\<close>

text \<open>
  What \<^verbatim>\<open>json.load\<close> gave for the scope file: a dict, of which the code reads the
  value under \<^verbatim>\<open>scope\<close>, or a value that is not a dict (a list, a string, a number,
  \<^verbatim>\<open>null\<close>) and so has no \<^verbatim>\<open>get\<close>.
\<close>

datatype scope_data = ScopeDict "(pystr \<times> scope_value) list" | NotADict

text \<open>
  What start-up finds: building the two model clients, opening the vector store and
  counting its documents, building the reranking retriever, and opening and parsing
  the scope file each return or raise. The prints of start-up and of the reload write
  fixed texts, counts and the messages of library errors; they are taken to succeed.
\<close>

record startup =
  st_llms :: "exn + llm \<times> router_llm"
  st_doc_count :: "exn + nat"
  st_retriever :: "exn + retriever"
  st_scope_file :: "exn + scope_data"

text \<open>\<^verbatim>\<open>_initialize_llms\<close>: an exception is raised again.\<close>

definition initialize_llms :: "startup \<Rightarrow> backend \<Rightarrow> exn + backend" where
  "initialize_llms s self =
     (case st_llms s of
        Inl e \<Rightarrow> Inl e
      | Inr (m, r) \<Rightarrow> Inr (self\<lparr>llm_main := Some m, llm_router := Some r\<rparr>))"

text \<open>\<^verbatim>\<open>_initialize_retriever\<close>: an empty store or any exception leaves no retriever.\<close>

definition initialize_retriever :: "startup \<Rightarrow> backend \<Rightarrow> backend" where
  "initialize_retriever s self =
     (case st_doc_count s of
        Inl e \<Rightarrow> self\<lparr>compression_retriever := None\<rparr>
      | Inr doc_count \<Rightarrow>
          if doc_count = 0 then self\<lparr>compression_retriever := None\<rparr>
          else (case st_retriever s of
                  Inl e \<Rightarrow> self\<lparr>compression_retriever := None\<rparr>
                | Inr r \<Rightarrow> self\<lparr>compression_retriever := Some r\<rparr>))"

text \<open>\<^verbatim>\<open>_create_default_knowledge_scope\<close>.\<close>

definition default_knowledge_scope :: "pystr list" where
  "default_knowledge_scope =
     [lit ''Normative alimentari'', lit ''Etichettatura prodotti'',
      lit ''Sicurezza alimentare'', lit ''Additivi e conservanti'',
      lit ''Controlli sanitari'', lit ''Legislazione europea'',
      lit ''Regolamenti ministeriali'', lit ''Certificazioni qualit'' @ [224]]"

definition create_default_knowledge_scope :: "backend \<Rightarrow> backend" where
  "create_default_knowledge_scope self =
     self\<lparr>knowledge_scope := PyList default_knowledge_scope\<rparr>"

text \<open>
  \<^verbatim>\<open>_load_knowledge_scope\<close>: the value under \<^verbatim>\<open>scope\<close> is stored first. If it is true,
  its length is printed, and \<^verbatim>\<open>len\<close> may raise; if not, the default list replaces it.
  Only \<^verbatim>\<open>FileNotFoundError\<close> and \<^verbatim>\<open>JSONDecodeError\<close> are handled; any other
  exception leaves the method.
\<close>

definition load_knowledge_scope :: "exn + scope_data \<Rightarrow> backend \<Rightarrow> exn + backend" where
  "load_knowledge_scope file self =
     (case file of
        Inr (ScopeDict data) \<Rightarrow>
          (let self' = self\<lparr>knowledge_scope := dict_get data (lit ''scope'') (PyList [])\<rparr>
           in if truthy (knowledge_scope self')
              then (case py_len (knowledge_scope self') of
                      Inl e \<Rightarrow> Inl e
                    | Inr n \<Rightarrow> Inr self')
              else Inr (create_default_knowledge_scope self'))
      | Inr NotADict \<Rightarrow> Inl AttributeError
      | Inl FileNotFoundError \<Rightarrow> Inr (create_default_knowledge_scope self)
      | Inl JSONDecodeError \<Rightarrow> Inr (create_default_knowledge_scope self)
      | Inl e \<Rightarrow> Inl e)"

text \<open>
  \<^verbatim>\<open>_build_chain_architecture\<close>: without a retriever nothing is built. The chains are
  built in the order conversational, refusal, RAG, classification: composing a chain
  with a main model that is \<^verbatim>\<open>None\<close> raises a \<^verbatim>\<open>TypeError\<close>, and
  \<^verbatim>\<open>with_structured_output\<close> on a routing model that is \<^verbatim>\<open>None\<close> an
  \<^verbatim>\<open>AttributeError\<close>.
\<close>

definition build_chain_architecture :: "backend \<Rightarrow> exn + backend" where
  "build_chain_architecture self =
     (case compression_retriever self of
        None \<Rightarrow> Inr self
      | Some r \<Rightarrow>
          (case llm_main self of
             None \<Rightarrow> Inl TypeError
           | Some m \<Rightarrow>
               (case llm_router self of
                  None \<Rightarrow> Inl AttributeError
                | Some ro \<Rightarrow>
                    Inr (self\<lparr>full_chain :=
                           Some \<lparr>ch_llm_main = m, ch_llm_router = ro, ch_retriever = r\<rparr>\<rparr>))))"

text \<open>\<^verbatim>\<open>RAGBackend.__init__\<close>: the object exists only if no step raised.\<close>

definition init_backend :: "startup \<Rightarrow> exn + backend" where
  "init_backend s =
     (let self = \<lparr>llm_main = None, llm_router = None, compression_retriever = None,
                  knowledge_scope = PyList [], full_chain = None\<rparr>
      in case initialize_llms s self of
           Inl e \<Rightarrow> Inl e
         | Inr self1 \<Rightarrow>
             (case load_knowledge_scope (st_scope_file s) (initialize_retriever s self1) of
                Inl e \<Rightarrow> Inl e
              | Inr self3 \<Rightarrow> build_chain_architecture self3))"

text \<open>
  \<^verbatim>\<open>reload_knowledge_scope\<close>: every exception is caught and only printed. The value
  under \<^verbatim>\<open>scope\<close> is stored before its length is printed, so it stays even when
  \<^verbatim>\<open>len\<close> raises.
\<close>

definition reload_knowledge_scope :: "exn + scope_data \<Rightarrow> backend \<Rightarrow> backend" where
  "reload_knowledge_scope file self =
     (case file of
        Inr (ScopeDict data) \<Rightarrow>
          self\<lparr>knowledge_scope := dict_get data (lit ''scope'') (PyList [])\<rparr>
      | Inr NotADict \<Rightarrow> self
      | Inl e \<Rightarrow> self)"

section \<open>Notions used to state the properties\<close>

text \<open>The three fixed results of the entrypoint.\<close>

definition invalid_query :: response where
  "invalid_query = \<lparr>answer = Str msg_invalid_query, source_documents = Docs []\<rparr>"

definition unavailable :: response where
  "unavailable = \<lparr>answer = Str msg_unavailable, source_documents = Docs []\<rparr>"

definition technical_error :: response where
  "technical_error = \<lparr>answer = Str msg_technical_error, source_documents = Docs []\<rparr>"

text \<open>
  The rendering of a scope in the words of the specification: a bulleted list of at
  most the first eight topics, followed by a line counting the remaining ones when
  there are more than eight.
\<close>

definition bulleted_scope :: "pystr list \<Rightarrow> pystr" where
  "bulleted_scope scope =
     py_join [10] (map (\<lambda>topic. bullet @ topic) (take 8 scope)) @
     (if length scope > 8 then more_head @ py_str_nat (length scope - 8) @ more_tail else [])"

section \<open>Sample collaborators\<close>

definition sample_doc :: doc where
  "sample_doc = \<lparr>page_content = lit '' Limite nitriti: 150 mg/kg. '',
                  metadata = [(lit ''source'', lit ''docs/reg_1333.pdf'')]\<rparr>"

definition other_doc :: doc where
  "other_doc = \<lparr>page_content = lit ''Testo'' @ [10], metadata = []\<rparr>"

text \<open>Routing models: one that answers a given label, one that gives no answer, two that raise.\<close>

definition fixed_router :: "pystr \<Rightarrow> router_llm" where
  "fixed_router label prompt = Inr (Some label)"

definition silent_router :: router_llm where
  "silent_router prompt = Inr None"

definition failing_router :: router_llm where
  "failing_router prompt = Inl (OtherException (lit ''timeout''))"

definition garbled_router :: router_llm where
  "garbled_router prompt = Inl (OtherException (lit ''bad reply '' @ [56448]))"

definition fixed_llm :: llm where
  "fixed_llm prompt = Inr (lit ''ok [doc-1]'')"

definition fixed_retriever :: retriever where
  "fixed_retriever q = Inr [sample_doc, other_doc]"

text \<open>
  A standard output that cannot encode the surrogate code points, as a UTF-8 stream
  cannot. Of the exceptions only \<open>OtherException\<close> carries its text here; the messages
  of the others are taken to be encodable.
\<close>

definition surrogate :: "nat \<Rightarrow> bool" where
  "surrogate c \<longleftrightarrow> 55296 \<le> c \<and> c \<le> 57343"

definition strict_stdout :: stdout where
  "strict_stdout p =
     (case p of
        Line t \<Rightarrow> if list_ex surrogate t then Inl UnicodeEncodeError else Inr ()
      | ErrorLine e \<Rightarrow>
          (case e of
             OtherException m \<Rightarrow>
               if list_ex surrogate m then Inl UnicodeEncodeError else Inr ()
           | _ \<Rightarrow> Inr ()))"

definition sample_chain :: "router_llm \<Rightarrow> chain" where
  "sample_chain r =
     \<lparr>ch_llm_main = fixed_llm, ch_llm_router = r, ch_retriever = fixed_retriever\<rparr>"

definition sample_backend :: "router_llm \<Rightarrow> backend" where
  "sample_backend r =
     \<lparr>llm_main = Some fixed_llm, llm_router = Some r,
      compression_retriever = Some fixed_retriever,
      knowledge_scope = PyList default_knowledge_scope, full_chain = Some (sample_chain r)\<rparr>"

definition greeting :: pystr where
  "greeting = lit ''Ciao, come stai?''"

definition empty_store_startup :: startup where
  "empty_store_startup =
     \<lparr>st_llms = Inr (fixed_llm, silent_router), st_doc_count = Inr 0,
      st_retriever = Inr fixed_retriever, st_scope_file = Inl FileNotFoundError\<rparr>"

definition unbuilt_backend :: backend where
  "unbuilt_backend =
     \<lparr>llm_main = Some fixed_llm, llm_router = Some silent_router,
      compression_retriever = None, knowledge_scope = PyList default_knowledge_scope,
      full_chain = None\<rparr>"

text \<open>A start-up on a filled store, with a given outcome for the scope file.\<close>

definition filled_store_startup :: "exn + scope_data \<Rightarrow> startup" where
  "filled_store_startup file =
     \<lparr>st_llms = Inr (fixed_llm, silent_router), st_doc_count = Inr 3,
      st_retriever = Inr fixed_retriever, st_scope_file = file\<rparr>"

definition ten_topics :: "pystr list" where
  "ten_topics = default_knowledge_scope @ [lit ''Allergeni'', lit ''Novel food'']"

definition wine_backend :: backend where
  "wine_backend = (sample_backend silent_router)\<lparr>knowledge_scope := PyList [lit ''Vino'']\<rparr>"

section \<open>Strings: basic facts\<close>

lemma lit_eq_iff: "lit a = lit b \<longleftrightarrow> a = b"
  unfolding lit_def by (simp add: inj_of_char)

lemma all_dropWhile_iff: "(\<forall>x\<in>set (dropWhile P s). P x) \<longleftrightarrow> (\<forall>x\<in>set s. P x)"
  by (induction s) auto

lemma py_strip_empty_iff: "py_strip s = [] \<longleftrightarrow> (\<forall>c\<in>set s. py_isspace c)"
  by (simp add: py_strip_def all_dropWhile_iff)

lemma nat_of_decimal_append:
  "nat_of_decimal (ds @ [c]) = 10 * nat_of_decimal ds + (c - 48)"
  by (simp add: nat_of_decimal_def)

lemma nat_of_decimal_py_str_nat: "nat_of_decimal (py_str_nat n) = n"
proof (induction n rule: py_str_nat.induct)
  case (1 n)
  show ?case
  proof (cases "n < 10")
    case True
    then show ?thesis by (simp add: py_str_nat.simps [of n] nat_of_decimal_def)
  next
    case False
    with 1 show ?thesis
      by (simp add: py_str_nat.simps [of n] nat_of_decimal_append)
  qed
qed

text \<open>The text of a number consists of decimal digits and has no leading zero.\<close>

lemma py_str_nat_digits: "c \<in> set (py_str_nat n) \<Longrightarrow> 48 \<le> c \<and> c \<le> 57"
proof (induction n rule: py_str_nat.induct)
  case (1 n)
  show ?case
  proof (cases "n < 10")
    case True
    with "1.prems" show ?thesis by (simp add: py_str_nat.simps [of n])
  next
    case False
    have "n mod 10 < 10" by simp
    with False 1 show ?thesis
      by (auto simp: py_str_nat.simps [of n])
  qed
qed

lemma py_str_nat_nonempty: "py_str_nat n \<noteq> []"
  by (simp add: py_str_nat.simps [of n])

lemma py_str_nat_no_leading_zero: "0 < n \<Longrightarrow> hd (py_str_nat n) \<noteq> 48"
proof (induction n rule: py_str_nat.induct)
  case (1 n)
  show ?case
  proof (cases "n < 10")
    case True
    with "1.prems" show ?thesis by (simp add: py_str_nat.simps [of n])
  next
    case False
    then have "0 < n div 10" by simp
    with False 1 show ?thesis
      by (simp add: py_str_nat.simps [of n] py_str_nat_nonempty)
  qed
qed

text \<open>Joining: the first item, then every further item behind a separator.\<close>

lemma py_join_Cons: "py_join sep (x # xs) = x @ concat (map (\<lambda>y. sep @ y) xs)"
  by (induction xs arbitrary: x) simp_all

lemma py_strip_greeting: "greeting \<noteq> [] \<and> py_strip greeting = greeting"
  by (simp add: greeting_def py_strip_def py_isspace_def lit_def)

lemma no_surrogate_greeting:
  "\<not> list_ex surrogate (msg_processing_head @ take 50 greeting @ lit ''...'')"
  by (simp add: greeting_def msg_processing_head_def surrogate_def lit_def)

lemma strict_stdout_greeting:
  "strict_stdout (Line (msg_processing_head @ take 50 greeting @ lit ''...'')) = Inr ()"
  using no_surrogate_greeting by (simp add: strict_stdout_def)

section \<open>The chains: results and calls\<close>

lemma classification_chain_log:
  "snd (classification_chain ch q) = [RouterCall (route_template_head @ q @ route_template_tail)]"
  by (simp add: classification_chain_def Let_def split: sum.splits)

lemma classification_chain_result:
  "fst (classification_chain ch q) =
     (case ch_llm_router ch (route_template_head @ q @ route_template_tail) of
        Inl e \<Rightarrow> Inl e
      | Inr None \<Rightarrow> Inr (lit ''non_pertinente'')
      | Inr (Some s) \<Rightarrow>
          (if s = lit ''pertinente'' \<or> s = lit ''non_pertinente'' \<or> s = lit ''conversazionale''
           then Inr s else Inl ValidationError))"
  by (auto simp: classification_chain_def with_structured_output_def new_RouteQuery_def Let_def
      split: sum.splits option.splits)


lemma conversational_chain_log:
  "snd (conversational_chain ch q) = [MainCall (conversational_template_head @ q)]"
  by (simp add: conversational_chain_def Let_def split: sum.splits)

lemma format_scope_value_list:
  "format_scope_value (PyList items) = Inr (format_knowledge_scope items)"
  by (simp add: format_scope_value_def format_knowledge_scope_def)

lemma refusal_chain_log:
  "snd (refusal_chain ch (PyList items) q) =
     [MainCall (refusal_template_head @ q @ refusal_template_mid @
                format_knowledge_scope items @ refusal_template_tail)]"
  by (simp add: refusal_chain_def format_scope_value_list Let_def split: sum.splits)

lemma refusal_chain_result:
  "fst (refusal_chain ch (PyList items) q) =
     (case ch_llm_main ch (refusal_template_head @ q @ refusal_template_mid @
                format_knowledge_scope items @ refusal_template_tail) of
        Inl e \<Rightarrow> Inl e | Inr t \<Rightarrow> Inr (OutStr t))"
  by (simp add: refusal_chain_def format_scope_value_list Let_def split: sum.splits)

lemma rag_chain_result:
  "fst (rag_chain ch q) = Inr r \<Longrightarrow>
     \<exists>t docs. ch_retriever ch q = Inr docs \<and>
       r = OutDict [(lit ''answer'', Str t), (lit ''source_documents'', Docs docs)]"
  by (auto simp: rag_chain_def Let_def split: sum.splits)

lemma normalize_rag_output:
  "normalize_response (OutDict [(lit ''answer'', Str t), (lit ''source_documents'', Docs docs)]) =
     \<lparr>answer = Str t, source_documents = Docs docs\<rparr>"
  by (simp add: dict_get_def lit_eq_iff)

lemma branch_not_relevant:
  assumes "dest \<noteq> lit ''pertinente''"
  shows "(\<forall>r. fst (branch ch scope dest q) = Inr r \<longrightarrow> (\<exists>t. r = OutStr t)) \<and>
         (\<forall>q'. RetrieverCall q' \<notin> set (snd (branch ch scope dest q)))"
  using assms
  by (auto simp: branch_def conversational_chain_def refusal_chain_def Let_def
      split: sum.splits)

lemma try_block_not_classified:
  assumes "fst (classification_chain ch (py_strip query)) = Inl e"
  shows "(\<exists>e'. fst (try_block out ch scope query) = Inl e') \<and>
         (\<forall>q'. RetrieverCall q' \<notin> set (snd (try_block out ch scope query)))"
proof -
  obtain log where c: "classification_chain ch (py_strip query) = (Inl e, log)"
    using assms by (cases "classification_chain ch (py_strip query)") simp
  moreover have "log = [RouterCall (route_template_head @ py_strip query @ route_template_tail)]"
    using classification_chain_log [of ch "py_strip query"] c by simp
  ultimately show ?thesis
    by (simp add: try_block_def invoke_full_chain_def split: sum.splits)
qed

text \<open>What \<open>get_response\<close> makes of the try block.\<close>

lemma get_response_built:
  assumes "query \<noteq> []" "py_strip query \<noteq> []" "full_chain self = Some ch"
  shows "snd (get_response out self query) = snd (try_block out ch (knowledge_scope self) query) \<and>
         (\<forall>r. fst (try_block out ch (knowledge_scope self) query) = Inr r \<longrightarrow>
            fst (get_response out self query) = Inr r) \<and>
         (\<forall>e. fst (try_block out ch (knowledge_scope self) query) = Inl e \<longrightarrow>
            fst (get_response out self query) =
              (case out (ErrorLine e) of
                 Inl e' \<Rightarrow> Inl e'
               | Inr u \<Rightarrow> Inr \<lparr>answer = Str msg_technical_error, source_documents = Docs []\<rparr>))"
  using assms
  by (cases "try_block out ch (knowledge_scope self) query")
    (auto simp: get_response_def split: sum.splits)

section \<open>Evidence and routing\<close>

text \<open>
  C1. When the classified destination is not \<^verbatim>\<open>pertinente\<close> (so in particular when it
  is \<^verbatim>\<open>conversazionale\<close> or \<^verbatim>\<open>non_pertinente\<close>), a result returned by \<open>get_response\<close>
  has empty \<^verbatim>\<open>source_documents\<close> and no call to the retriever was made. Whenever a
  returned result has non-empty \<^verbatim>\<open>source_documents\<close>, the pipeline was built, the
  destination was \<^verbatim>\<open>pertinente\<close>, the retriever returned a non-empty list, and that
  list is the evidence.
\<close>

theorem evidence_only_when_relevant:
  "(\<forall>ch dest. full_chain self = Some ch \<and>
        fst (classification_chain ch (py_strip query)) = Inr dest \<and>
        dest \<noteq> lit ''pertinente'' \<longrightarrow>
      (\<forall>r. fst (get_response out self query) = Inr r \<longrightarrow> source_documents r = Docs []) \<and>
      (\<forall>q. RetrieverCall q \<notin> set (snd (get_response out self query)))) \<and>
   (\<forall>r. fst (get_response out self query) = Inr r \<and> source_documents r \<noteq> Docs [] \<longrightarrow>
      (\<exists>ch docs. full_chain self = Some ch \<and>
         fst (classification_chain ch (py_strip query)) = Inr (lit ''pertinente'') \<and>
         ch_retriever ch (py_strip query) = Inr docs \<and> docs \<noteq> [] \<and>
         source_documents r = Docs docs))"
proof (cases "query = [] \<or> py_strip query = [] \<or> full_chain self = None")
  case True
  then have "(\<forall>r. fst (get_response out self query) = Inr r \<longrightarrow> source_documents r = Docs []) \<and>
      snd (get_response out self query) = []"
    by (auto simp: get_response_def)
  then show ?thesis by simp
next
  case False
  then obtain ch where ch: "query \<noteq> []" "py_strip query \<noteq> []" "full_chain self = Some ch"
    by auto
  note gr = get_response_built [OF ch, of out]
  let ?tb = "try_block out ch (knowledge_scope self) query"
  have tech: "fst ?tb = Inl e \<Longrightarrow> fst (get_response out self query) = Inr r \<Longrightarrow>
      source_documents r = Docs []" for e r
    using gr by (auto split: sum.splits)
  show ?thesis
  proof (cases "out (Line (msg_processing_head @ take 50 query @ lit ''...''))")
    case (Inl e)
    have tb: "?tb = (Inl e, [])"
      using Inl by (simp add: try_block_def)
    then have "snd (get_response out self query) = []" using gr by simp
    moreover have "\<forall>r. fst (get_response out self query) = Inr r \<longrightarrow> source_documents r = Docs []"
      using tech [of e] tb by simp
    ultimately show ?thesis by simp
  next
    case printed: (Inr u)
    obtain c log where cl: "classification_chain ch (py_strip query) = (c, log)"
      by (cases "classification_chain ch (py_strip query)")
    have log: "log = [RouterCall (route_template_head @ py_strip query @ route_template_tail)]"
      using classification_chain_log [of ch "py_strip query"] cl by simp
    show ?thesis
    proof (cases c)
      case (Inl e)
      with cl have "fst (classification_chain ch (py_strip query)) = Inl e" by simp
      from try_block_not_classified [OF this, of out "knowledge_scope self"]
      obtain e' where e': "fst ?tb = Inl e'"
        and noret: "\<forall>q'. RetrieverCall q' \<notin> set (snd ?tb)" by blast
      have "\<forall>r. fst (get_response out self query) = Inr r \<longrightarrow> source_documents r = Docs []"
        using tech [OF e'] by simp
      moreover have "\<forall>q. RetrieverCall q \<notin> set (snd (get_response out self query))"
        using gr noret by simp
      ultimately show ?thesis using ch(3) cl Inl by simp
    next
      case (Inr dest)
      obtain r log' where br: "branch ch (knowledge_scope self) dest (py_strip query) = (r, log')"
        by (cases "branch ch (knowledge_scope self) dest (py_strip query)")
      have tb: "?tb = (case r of Inr result \<Rightarrow> Inr (normalize_response result)
                           | Inl e \<Rightarrow> Inl e, log @ log')"
        using printed cl Inr br
        by (simp add: try_block_def invoke_full_chain_def split: sum.splits)
      show ?thesis
      proof (cases "dest = lit ''pertinente''")
        case False
        from branch_not_relevant [OF False, of ch "knowledge_scope self" "py_strip query"] br
        have out_str: "\<forall>res. r = Inr res \<longrightarrow> (\<exists>t. res = OutStr t)"
          and noret: "\<forall>q'. RetrieverCall q' \<notin> set log'" by simp_all
        have "\<forall>x. fst (get_response out self query) = Inr x \<longrightarrow> source_documents x = Docs []"
        proof (cases r)
          case (Inl e)
          with tb tech [of e] show ?thesis by simp
        next
          case res: (Inr result)
          with out_str obtain t where "result = OutStr t" by blast
          with tb res gr show ?thesis by simp
        qed
        moreover have "\<forall>q. RetrieverCall q \<notin> set (snd (get_response out self query))"
          using gr tb noret log by simp
        ultimately show ?thesis using False ch(3) cl Inr by simp
      next
        case True
        show ?thesis
        proof (cases r)
          case (Inl e)
          with tb tech [of e]
          have "\<forall>x. fst (get_response out self query) = Inr x \<longrightarrow> source_documents x = Docs []"
            by simp
          then show ?thesis using True ch(3) cl Inr by auto
        next
          case res: (Inr result)
          with br True have "fst (rag_chain ch (py_strip query)) = Inr result"
            by (simp add: branch_def)
          from rag_chain_result [OF this] obtain t docs where
            d: "ch_retriever ch (py_strip query) = Inr docs"
              "result = OutDict [(lit ''answer'', Str t), (lit ''source_documents'', Docs docs)]"
            by blast
          have "fst (get_response out self query) =
              Inr \<lparr>answer = Str t, source_documents = Docs docs\<rparr>"
            using gr tb res d(2) by (simp add: dict_get_def lit_eq_iff)
          with True ch(3) cl Inr d(1) show ?thesis by auto
        qed
      qed
    qed
  qed
qed

theorem evidence_only_when_relevant_witness:
  "(\<exists>r. fst (get_response strict_stdout (sample_backend (fixed_router (lit ''conversazionale'')))
       greeting) = Inr r \<and> source_documents r = Docs []) \<and>
   (\<forall>q. RetrieverCall q \<notin> set (snd (get_response strict_stdout
       (sample_backend (fixed_router (lit ''conversazionale''))) greeting))) \<and>
   fst (get_response strict_stdout (sample_backend (fixed_router (lit ''pertinente''))) greeting)
     = Inr \<lparr>answer = Str (lit ''ok [doc-1]''), source_documents = Docs [sample_doc, other_doc]\<rparr>"
proof -
  let ?chat = "sample_backend (fixed_router (lit ''conversazionale''))"
  let ?rag = "sample_backend (fixed_router (lit ''pertinente''))"
  have 1: "full_chain ?chat = Some (sample_chain (fixed_router (lit ''conversazionale'')))"
    by (simp add: sample_backend_def)
  have 2: "fst (classification_chain (sample_chain (fixed_router (lit ''conversazionale'')))
             (py_strip greeting)) = Inr (lit ''conversazionale'')"
    by (simp add: classification_chain_result sample_chain_def fixed_router_def)
  have 3: "lit ''conversazionale'' \<noteq> lit ''pertinente''"
    by (simp add: lit_eq_iff)
  have 4: "fst (get_response strict_stdout ?rag greeting) =
      Inr \<lparr>answer = Str (lit ''ok [doc-1]''), source_documents = Docs [sample_doc, other_doc]\<rparr>"
    using py_strip_greeting strict_stdout_greeting
    by (simp add: get_response_def try_block_def sample_backend_def sample_chain_def
        fixed_router_def invoke_full_chain_def classification_chain_def
        with_structured_output_def new_RouteQuery_def branch_def rag_chain_def
        fixed_retriever_def fixed_llm_def dict_get_def lit_eq_iff)
  have 5: "\<exists>r. fst (get_response strict_stdout ?chat greeting) = Inr r"
    using py_strip_greeting strict_stdout_greeting
    by (simp add: get_response_def try_block_def sample_backend_def sample_chain_def
        fixed_router_def invoke_full_chain_def classification_chain_def
        with_structured_output_def new_RouteQuery_def branch_def conversational_chain_def
        fixed_llm_def lit_eq_iff)
  from evidence_only_when_relevant [of ?chat greeting strict_stdout] 1 2 3
  have 6: "(\<forall>r. fst (get_response strict_stdout ?chat greeting) = Inr r \<longrightarrow>
           source_documents r = Docs []) \<and>
        (\<forall>q. RetrieverCall q \<notin> set (snd (get_response strict_stdout ?chat greeting)))"
    by blast
  with 5 have "\<exists>r. fst (get_response strict_stdout ?chat greeting) = Inr r \<and>
      source_documents r = Docs []"
    by blast
  with 4 6 show ?thesis by blast
qed




section \<open>The fixed results of the entrypoint\<close>

text \<open>
  What the handler of \<open>get_response\<close> does with an exception of the try block: the
  technical-error answer when its own print returns, and the exception of that print
  otherwise.
\<close>

lemma try_block_exception_handled:
  assumes "query \<noteq> []" and "py_strip query \<noteq> []" and "full_chain self = Some ch"
    and "fst (try_block out ch (knowledge_scope self) query) = Inl e"
  shows "(out (ErrorLine e) = Inr () \<longrightarrow>
            fst (get_response out self query) = Inr technical_error) \<and>
         (\<forall>e'. out (ErrorLine e) = Inl e' \<longrightarrow> fst (get_response out self query) = Inl e')"
  using get_response_built [OF assms(1-3), of out] assms(4)
  by (auto simp: technical_error_def split: sum.splits)

text \<open>
  C3 does not hold of the code. The handler prints the text of the exception before it
  returns the technical-error answer, and that print is not guarded. Here the routing
  model raises an exception whose text holds a lone surrogate, standard output cannot
  encode it, and the \<^verbatim>\<open>UnicodeEncodeError\<close> of the print leaves \<open>get_response\<close>.
\<close>

theorem handler_print_can_raise:
  "get_response strict_stdout (sample_backend garbled_router) greeting
     = (Inl UnicodeEncodeError,
        [RouterCall (route_template_head @ greeting @ route_template_tail)])"
  using py_strip_greeting strict_stdout_greeting
  by (simp add: get_response_def try_block_def sample_backend_def sample_chain_def
      invoke_full_chain_def classification_chain_def with_structured_output_def
      garbled_router_def strict_stdout_def surrogate_def lit_def)

text \<open>
  C4. For a query that is empty or consists of whitespace only, \<open>get_response\<close> returns
  the fixed invalid-query answer with empty \<^verbatim>\<open>source_documents\<close>, and the list of calls
  to collaborators is empty.
\<close>

theorem blank_query_rejected:
  assumes "query = [] \<or> (\<forall>c\<in>set query. py_isspace c)"
  shows "get_response out self query = (Inr invalid_query, [])"
proof -
  from assms have "query = [] \<or> py_strip query = []"
    by (auto simp: py_strip_empty_iff)
  then show ?thesis by (auto simp: get_response_def invalid_query_def)
qed

theorem blank_query_rejected_witness:
  "py_strip [32, 9, 10, 160, 8195] = [] \<and>
   get_response strict_stdout (sample_backend failing_router) [32, 9, 10, 160, 8195]
     = (Inr invalid_query, [])"
proof -
  have h: "\<forall>c\<in>set [32, 9, 10, 160, 8195]. py_isspace c"
    by (simp add: py_isspace_def)
  with blank_query_rejected
    [of "[32, 9, 10, 160, 8195]" strict_stdout "sample_backend failing_router"]
  show ?thesis by (simp add: py_strip_empty_iff)
qed

lemma init_backend_no_retriever:
  assumes "init_backend s = Inr self"
    and "isl (st_doc_count s) \<or> st_doc_count s = Inr 0 \<or> isl (st_retriever s)"
  shows "compression_retriever self = None \<and> full_chain self = None"
  using assms
  by (auto simp: init_backend_def initialize_llms_def initialize_retriever_def
      load_knowledge_scope_def build_chain_architecture_def create_default_knowledge_scope_def
      Let_def isl_def
      split: sum.splits scope_data.splits exn.splits if_splits option.splits)

lemma init_backend_chain_iff:
  assumes "init_backend s = Inr self"
  shows "full_chain self = None \<longleftrightarrow> compression_retriever self = None"
  using assms
  by (auto simp: init_backend_def initialize_llms_def initialize_retriever_def
      load_knowledge_scope_def build_chain_architecture_def create_default_knowledge_scope_def
      Let_def
      split: sum.splits scope_data.splits exn.splits if_splits option.splits)

text \<open>
  C5. For a query that is not blank, a backend without a built pipeline answers with the
  fixed "system unavailable" result, empty \<^verbatim>\<open>source_documents\<close> and no call to any
  collaborator. A backend that start-up left without a retriever has no pipeline, and
  start-up leaves it without a retriever whenever the vector store cannot be opened,
  holds zero documents, or the retriever cannot be built.
\<close>

theorem uninitialized_is_unavailable:
  assumes "query \<noteq> []" and "py_strip query \<noteq> []"
  shows "(full_chain self = None \<longrightarrow> get_response out self query = (Inr unavailable, [])) \<and>
         (init_backend s = Inr self \<and>
          (compression_retriever self = None \<or> isl (st_doc_count s) \<or>
           st_doc_count s = Inr 0 \<or> isl (st_retriever s)) \<longrightarrow>
            compression_retriever self = None \<and> full_chain self = None \<and>
            get_response out self query = (Inr unavailable, []))"
proof -
  have a: "full_chain self = None \<Longrightarrow> get_response out self query = (Inr unavailable, [])"
    using assms by (simp add: get_response_def unavailable_def)
  with init_backend_no_retriever [of s self] init_backend_chain_iff [of s self]
  show ?thesis by blast
qed

theorem uninitialized_is_unavailable_witness:
  "init_backend empty_store_startup = Inr unbuilt_backend \<and>
   compression_retriever unbuilt_backend = None \<and> full_chain unbuilt_backend = None \<and>
   get_response strict_stdout unbuilt_backend greeting = (Inr unavailable, [])"
proof -
  have 1: "init_backend empty_store_startup = Inr unbuilt_backend"
    by (simp add: init_backend_def empty_store_startup_def unbuilt_backend_def
        initialize_llms_def initialize_retriever_def load_knowledge_scope_def
        create_default_knowledge_scope_def build_chain_architecture_def)
  have 2: "st_doc_count empty_store_startup = Inr 0"
    by (simp add: empty_store_startup_def)
  from uninitialized_is_unavailable
    [of greeting unbuilt_backend strict_stdout empty_store_startup]
    py_strip_greeting 1 2
  show ?thesis by simp
qed

section \<open>Citation labels\<close>

lemma formatted_docs_upt:
  "formatted_docs i ds = map (\<lambda>k. format_doc k (ds ! (k - i))) [i..<i + length ds]"
proof (induction ds arbitrary: i)
  case Nil
  then show ?case by simp
next
  case (Cons d ds)
  have a: "[i..<i + length (d # ds)] = i # [Suc i..<Suc i + length ds]"
    by (simp add: upt_conv_Cons del: upt_Suc)
  have b: "map (\<lambda>k. format_doc k ((d # ds) ! (k - i))) [Suc i..<Suc i + length ds] =
           map (\<lambda>k. format_doc k (ds ! (k - Suc i))) [Suc i..<Suc i + length ds]"
    by (rule map_cong) (auto simp: nth_Cons')
  have "formatted_docs i (d # ds) = format_doc i d # formatted_docs (Suc i) ds"
    by simp
  also have "\<dots> = format_doc i d #
      map (\<lambda>k. format_doc k (ds ! (k - Suc i))) [Suc i..<Suc i + length ds]"
    by (simp only: Cons [of "Suc i"])
  also have "\<dots> = map (\<lambda>k. format_doc k ((d # ds) ! (k - i))) (i # [Suc i..<Suc i + length ds])"
    by (simp add: b del: upt_Suc)
  finally show ?case by (simp only: a)
qed

lemma format_docs_with_ids_closed:
  assumes "docs \<noteq> []"
  shows "format_docs_with_ids docs =
     concat (map (\<lambda>i. (if i = 0 then [] else docs_separator) @ format_doc i (docs ! i))
       [0..<length docs])"
proof -
  from assms have n: "0 < length docs" by simp
  then have u: "[0..<length docs] = 0 # [Suc 0..<length docs]"
    by (simp add: upt_conv_Cons del: upt_Suc)
  have f: "formatted_docs 0 docs = format_doc 0 (docs ! 0) #
             map (\<lambda>k. format_doc k (docs ! k)) [Suc 0..<length docs]"
    using formatted_docs_upt [of 0 docs] by (simp add: u del: upt_Suc)
  have g: "map (\<lambda>i. (if i = 0 then [] else docs_separator) @ format_doc i (docs ! i))
             [Suc 0..<length docs] =
           map (\<lambda>i. docs_separator @ format_doc i (docs ! i)) [Suc 0..<length docs]"
    by (rule map_cong) auto
  have "format_docs_with_ids docs = format_doc 0 (docs ! 0) @
          concat (map (\<lambda>i. docs_separator @ format_doc i (docs ! i)) [Suc 0..<length docs])"
    using assms by (simp add: format_docs_with_ids_def f py_join_Cons comp_def del: upt_Suc)
  also have "\<dots> = concat (map (\<lambda>i. (if i = 0 then [] else docs_separator) @
        format_doc i (docs ! i)) (0 # [Suc 0..<length docs]))"
    by (simp add: g del: upt_Suc)
  finally show ?thesis by (simp only: u)
qed

lemma source_name_samples:
  "source_name sample_doc = lit ''reg_1333.pdf'' \<and> source_name other_doc = unknown_source"
  by (simp add: source_name_def sample_doc_def other_doc_def dict_get_def basename_def
      unknown_source_def lit_def)

lemma py_strip_samples:
  "py_strip (page_content sample_doc) = lit ''Limite nitriti: 150 mg/kg.'' \<and>
   py_strip (page_content other_doc) = lit ''Testo''"
  by (simp add: sample_doc_def other_doc_def py_strip_def py_isspace_def lit_def)

lemma py_str_nat_small:
  "py_str_nat (Suc 0) = lit ''1'' \<and> py_str_nat (Suc (Suc 0)) = lit ''2''"
  by (simp add: py_str_nat.simps lit_def)

text \<open>
  C6. In the RAG chain, for a non-empty list of retrieved passages, the prompt sent to
  the main model holds as its context the blocks of the passages in order, each after
  the first behind the separator, and the block of the passage at (0-based) position
  \<open>i\<close> carries the label \<^verbatim>\<open>[doc-N]\<close> where \<open>N\<close> is the decimal numeral of \<open>i + 1\<close>
  (digits only, no leading zero): the first passage is \<^verbatim>\<open>[doc-1]\<close>. The evidence the
  chain returns is that same list in that same order.
\<close>

theorem passages_labelled_by_position:
  assumes "ch_retriever ch query = Inr docs" and "docs \<noteq> []"
  shows "\<exists>context.
      context =
        concat (map (\<lambda>i. (if i = 0 then [] else docs_separator) @
            lit ''Contenuto dal documento [doc-'' @ py_str_nat (i + 1) @ lit ''] ('' @
            source_name (docs ! i) @ lit ''):'' @ [10] @ py_strip (page_content (docs ! i)))
          [0..<length docs]) \<and>
      format_docs_with_ids docs = context \<and>
      snd (rag_chain ch query) =
        [RetrieverCall query,
         MainCall (rag_template_head @ context @ rag_template_mid @ query @
                   rag_template_tail)] \<and>
      (\<forall>reply. ch_llm_main ch (rag_template_head @ context @ rag_template_mid @ query @
                  rag_template_tail) = Inr reply \<longrightarrow>
         fst (rag_chain ch query) =
           Inr (OutDict [(lit ''answer'', Str reply), (lit ''source_documents'', Docs docs)])) \<and>
      (\<forall>i. i < length docs \<longrightarrow>
         (\<forall>c\<in>set (py_str_nat (i + 1)). 48 \<le> c \<and> c \<le> 57) \<and>
         hd (py_str_nat (i + 1)) \<noteq> 48 \<and>
         nat_of_decimal (py_str_nat (i + 1)) = i + 1)"
proof -
  let ?ctx = "format_docs_with_ids docs"
  have 1: "?ctx =
        concat (map (\<lambda>i. (if i = 0 then [] else docs_separator) @
            lit ''Contenuto dal documento [doc-'' @ py_str_nat (i + 1) @ lit ''] ('' @
            source_name (docs ! i) @ lit ''):'' @ [10] @ py_strip (page_content (docs ! i)))
          [0..<length docs])"
    using format_docs_with_ids_closed [OF assms(2)] by (simp add: format_doc_def)
  have 2: "snd (rag_chain ch query) =
        [RetrieverCall query,
         MainCall (rag_template_head @ ?ctx @ rag_template_mid @ query @
                   rag_template_tail)]"
    using assms(1) by (simp add: rag_chain_def Let_def split: sum.splits)
  have 3: "ch_llm_main ch (rag_template_head @ ?ctx @ rag_template_mid @ query @
                  rag_template_tail) = Inr reply \<Longrightarrow>
         fst (rag_chain ch query) =
           Inr (OutDict [(lit ''answer'', Str reply), (lit ''source_documents'', Docs docs)])"
    for reply
    using assms(1) by (simp add: rag_chain_def Let_def)
  have 4: "(\<forall>c\<in>set (py_str_nat (i + 1)). 48 \<le> c \<and> c \<le> 57) \<and>
         hd (py_str_nat (i + 1)) \<noteq> 48 \<and>
         nat_of_decimal (py_str_nat (i + 1)) = i + 1" for i
    using py_str_nat_digits [of _ "i + 1"] py_str_nat_no_leading_zero [of "i + 1"]
    by (simp add: nat_of_decimal_py_str_nat)
  show ?thesis
  proof (rule exI [of _ ?ctx], intro conjI)
    show "?ctx =
        concat (map (\<lambda>i. (if i = 0 then [] else docs_separator) @
            lit ''Contenuto dal documento [doc-'' @ py_str_nat (i + 1) @ lit ''] ('' @
            source_name (docs ! i) @ lit ''):'' @ [10] @ py_strip (page_content (docs ! i)))
          [0..<length docs])"
      by (rule 1)
    show "format_docs_with_ids docs = ?ctx" by (rule refl)
    show "snd (rag_chain ch query) =
        [RetrieverCall query,
         MainCall (rag_template_head @ ?ctx @ rag_template_mid @ query @
                   rag_template_tail)]"
      by (rule 2)
    show "\<forall>reply. ch_llm_main ch (rag_template_head @ ?ctx @ rag_template_mid @ query @
                  rag_template_tail) = Inr reply \<longrightarrow>
         fst (rag_chain ch query) =
           Inr (OutDict [(lit ''answer'', Str reply), (lit ''source_documents'', Docs docs)])"
      using 3 by blast
    show "\<forall>i. i < length docs \<longrightarrow>
         (\<forall>c\<in>set (py_str_nat (i + 1)). 48 \<le> c \<and> c \<le> 57) \<and>
         hd (py_str_nat (i + 1)) \<noteq> 48 \<and>
         nat_of_decimal (py_str_nat (i + 1)) = i + 1"
      using 4 by blast
  qed
qed

theorem passages_labelled_by_position_witness:
  "snd (rag_chain (sample_chain silent_router) greeting) =
     [RetrieverCall greeting,
      MainCall (rag_template_head @
        (lit ''Contenuto dal documento [doc-'' @ lit ''1'' @ lit ''] ('' @ lit ''reg_1333.pdf'' @
         lit ''):'' @ [10] @ lit ''Limite nitriti: 150 mg/kg.'' @
         docs_separator @
         lit ''Contenuto dal documento [doc-'' @ lit ''2'' @ lit ''] ('' @ unknown_source @
         lit ''):'' @ [10] @ lit ''Testo'') @
        rag_template_mid @ greeting @ rag_template_tail)] \<and>
   fst (rag_chain (sample_chain silent_router) greeting) =
     Inr (OutDict [(lit ''answer'', Str (lit ''ok [doc-1]'')),
                   (lit ''source_documents'', Docs [sample_doc, other_doc])])"
proof -
  let ?ch = "sample_chain silent_router"
  let ?docs = "[sample_doc, other_doc]"
  have r: "ch_retriever ?ch greeting = Inr ?docs"
    by (simp add: sample_chain_def fixed_retriever_def)
  have ne: "?docs \<noteq> []" by simp
  have m: "ch_llm_main ?ch p = Inr (lit ''ok [doc-1]'')" for p
    by (simp add: sample_chain_def fixed_llm_def)
  from passages_labelled_by_position [OF r ne] obtain ctx where
    c: "ctx =
        concat (map (\<lambda>i. (if i = 0 then [] else docs_separator) @
            lit ''Contenuto dal documento [doc-'' @ py_str_nat (i + 1) @ lit ''] ('' @
            source_name (?docs ! i) @ lit ''):'' @ [10] @ py_strip (page_content (?docs ! i)))
          [0..<length ?docs])"
    and l: "snd (rag_chain ?ch greeting) =
        [RetrieverCall greeting,
         MainCall (rag_template_head @ ctx @ rag_template_mid @ greeting @
                   rag_template_tail)]"
    and a: "\<forall>reply. ch_llm_main ?ch (rag_template_head @ ctx @ rag_template_mid @ greeting @
                  rag_template_tail) = Inr reply \<longrightarrow>
         fst (rag_chain ?ch greeting) =
           Inr (OutDict [(lit ''answer'', Str reply), (lit ''source_documents'', Docs ?docs)])"
    by blast
  have u: "[0..<length ?docs] = [0, Suc 0]"
    by (simp add: upt_conv_Cons)
  have "ctx =
      lit ''Contenuto dal documento [doc-'' @ lit ''1'' @ lit ''] ('' @ lit ''reg_1333.pdf'' @
      lit ''):'' @ [10] @ lit ''Limite nitriti: 150 mg/kg.'' @
      docs_separator @
      lit ''Contenuto dal documento [doc-'' @ lit ''2'' @ lit ''] ('' @ unknown_source @
      lit ''):'' @ [10] @ lit ''Testo''"
    unfolding c u
    using source_name_samples py_strip_samples py_str_nat_small by simp
  then have e: "rag_template_head @ ctx @ rag_template_mid @ greeting @ rag_template_tail =
      rag_template_head @
        (lit ''Contenuto dal documento [doc-'' @ lit ''1'' @ lit ''] ('' @ lit ''reg_1333.pdf'' @
         lit ''):'' @ [10] @ lit ''Limite nitriti: 150 mg/kg.'' @
         docs_separator @
         lit ''Contenuto dal documento [doc-'' @ lit ''2'' @ lit ''] ('' @ unknown_source @
         lit ''):'' @ [10] @ lit ''Testo'') @
        rag_template_mid @ greeting @ rag_template_tail"
    by (simp only:)
  from a m have "fst (rag_chain ?ch greeting) =
     Inr (OutDict [(lit ''answer'', Str (lit ''ok [doc-1]'')),
                   (lit ''source_documents'', Docs ?docs)])"
    by blast
  moreover from l e have "snd (rag_chain ?ch greeting) =
     [RetrieverCall greeting,
      MainCall (rag_template_head @
        (lit ''Contenuto dal documento [doc-'' @ lit ''1'' @ lit ''] ('' @ lit ''reg_1333.pdf'' @
         lit ''):'' @ [10] @ lit ''Limite nitriti: 150 mg/kg.'' @
         docs_separator @
         lit ''Contenuto dal documento [doc-'' @ lit ''2'' @ lit ''] ('' @ unknown_source @
         lit ''):'' @ [10] @ lit ''Testo'') @
        rag_template_mid @ greeting @ rag_template_tail)]"
    by (simp only:)
  ultimately show ?thesis by blast
qed

section \<open>Normalisation\<close>

text \<open>
  C7. \<open>normalize_response\<close> always gives a record with the two fields. From a dict it
  keeps the values under \<^verbatim>\<open>answer\<close> and \<^verbatim>\<open>source_documents\<close> (a missing key gives the
  default text, respectively the empty list); any other output becomes its string with
  empty \<^verbatim>\<open>source_documents\<close>.
\<close>

theorem normalize_response_shape:
  "(\<forall>d. result = OutDict d \<longrightarrow>
      (\<forall>v. map_of d (lit ''answer'') = Some v \<longrightarrow> answer (normalize_response result) = v) \<and>
      (map_of d (lit ''answer'') = None \<longrightarrow>
         answer (normalize_response result) = Str msg_no_answer) \<and>
      (\<forall>v. map_of d (lit ''source_documents'') = Some v \<longrightarrow>
         source_documents (normalize_response result) = v) \<and>
      (map_of d (lit ''source_documents'') = None \<longrightarrow>
         source_documents (normalize_response result) = Docs [])) \<and>
   (\<forall>s. result = OutStr s \<or> result = OutObj s \<longrightarrow>
      normalize_response result = \<lparr>answer = Str s, source_documents = Docs []\<rparr>)"
  by (cases result) (auto simp: dict_get_def)

theorem normalize_response_shape_witness:
  "normalize_response (OutDict [(lit ''answer'', Str greeting),
       (lit ''source_documents'', Docs [sample_doc])])
     = \<lparr>answer = Str greeting, source_documents = Docs [sample_doc]\<rparr> \<and>
   normalize_response (OutDict []) = \<lparr>answer = Str msg_no_answer, source_documents = Docs []\<rparr> \<and>
   normalize_response (OutStr greeting) = \<lparr>answer = Str greeting, source_documents = Docs []\<rparr> \<and>
   normalize_response (OutObj (lit ''None'')) =
     \<lparr>answer = Str (lit ''None''), source_documents = Docs []\<rparr>"
proof -
  let ?d = "[(lit ''answer'', Str greeting), (lit ''source_documents'', Docs [sample_doc])]"
  have 1: "map_of ?d (lit ''answer'') = Some (Str greeting)" by simp
  have 2: "map_of ?d (lit ''source_documents'') = Some (Docs [sample_doc])"
    by (simp add: lit_eq_iff)
  from normalize_response_shape [of "OutDict ?d"] 1 2
  have "answer (normalize_response (OutDict ?d)) = Str greeting \<and>
        source_documents (normalize_response (OutDict ?d)) = Docs [sample_doc]"
    by blast
  then have a: "normalize_response (OutDict ?d) =
      \<lparr>answer = Str greeting, source_documents = Docs [sample_doc]\<rparr>"
    by (cases "normalize_response (OutDict ?d)") simp
  from normalize_response_shape [of "OutDict []"]
  have "answer (normalize_response (OutDict [])) = Str msg_no_answer \<and>
        source_documents (normalize_response (OutDict [])) = Docs []"
    by simp
  then have b: "normalize_response (OutDict []) =
      \<lparr>answer = Str msg_no_answer, source_documents = Docs []\<rparr>"
    by (cases "normalize_response (OutDict [])") simp
  from normalize_response_shape [of "OutStr greeting"]
  have c: "normalize_response (OutStr greeting) =
      \<lparr>answer = Str greeting, source_documents = Docs []\<rparr>" by blast
  from normalize_response_shape [of "OutObj (lit ''None'')"]
  have d: "normalize_response (OutObj (lit ''None'')) =
     \<lparr>answer = Str (lit ''None''), source_documents = Docs []\<rparr>" by blast
  from a b c d show ?thesis by blast
qed

section \<open>The knowledge scope\<close>

lemma length_default_knowledge_scope: "length default_knowledge_scope = 8"
  by (simp add: default_knowledge_scope_def)

lemma default_knowledge_scope_nonempty: "default_knowledge_scope \<noteq> []"
  by (simp add: default_knowledge_scope_def)

lemma py_str_nat_two: "py_str_nat 2 = lit ''2''"
  by (simp add: py_str_nat.simps lit_def)

text \<open>
  C8, as stated, fails for the empty scope: the guard at the head of
  \<^verbatim>\<open>_format_knowledge_scope\<close> returns a fixed sentence, which holds no bullet and is
  not the (empty) bulleted list of zero topics.
\<close>

theorem empty_scope_is_not_bulleted:
  "bulleted_scope [] = [] \<and> format_knowledge_scope [] = msg_no_scope \<and>
   format_knowledge_scope [] \<noteq> bulleted_scope [] \<and>
   8226 \<notin> set (format_knowledge_scope [])"
  by (simp add: bulleted_scope_def format_knowledge_scope_def msg_no_scope_def lit_def)

text \<open>
  C8, amended. For a non-empty scope the rendering is the bulleted list of its first
  eight topics, one per line; when the scope has more than eight topics, and only then,
  a further line follows that shows the decimal numeral of \<open>length scope - 8\<close>. The empty
  scope is rendered as the fixed sentence \<^verbatim>\<open>Nessun ambito specifico definito.\<close>
\<close>

theorem knowledge_scope_rendering:
  "(scope \<noteq> [] \<longrightarrow> format_knowledge_scope scope = bulleted_scope scope) \<and>
   (scope \<noteq> [] \<and> length scope \<le> 8 \<longrightarrow>
      format_knowledge_scope scope = py_join [10] (map (\<lambda>topic. bullet @ topic) scope)) \<and>
   (8 < length scope \<longrightarrow>
      format_knowledge_scope scope =
        py_join [10] (map (\<lambda>topic. bullet @ topic) (take 8 scope)) @
        more_head @ py_str_nat (length scope - 8) @ more_tail \<and>
      length (take 8 scope) = 8 \<and>
      nat_of_decimal (py_str_nat (length scope - 8)) = length scope - 8) \<and>
   (scope = [] \<longrightarrow> format_knowledge_scope scope = msg_no_scope)"
  by (auto simp: format_knowledge_scope_def bulleted_scope_def Let_def
      nat_of_decimal_py_str_nat)

theorem knowledge_scope_rendering_witness:
  "format_knowledge_scope default_knowledge_scope =
     py_join [10] (map (\<lambda>topic. bullet @ topic) default_knowledge_scope) \<and>
   format_knowledge_scope ten_topics =
     py_join [10] (map (\<lambda>topic. bullet @ topic) default_knowledge_scope) @
     more_head @ lit ''2'' @ more_tail"
proof -
  have 1: "default_knowledge_scope \<noteq> [] \<and> length default_knowledge_scope \<le> 8"
    by (simp add: length_default_knowledge_scope default_knowledge_scope_nonempty)
  have 2: "8 < length ten_topics" "length ten_topics - 8 = 2"
    "take 8 ten_topics = default_knowledge_scope"
    by (simp_all add: ten_topics_def length_default_knowledge_scope)
  from knowledge_scope_rendering [of default_knowledge_scope] 1
  have "format_knowledge_scope default_knowledge_scope =
     py_join [10] (map (\<lambda>topic. bullet @ topic) default_knowledge_scope)"
    by blast
  moreover from knowledge_scope_rendering [of ten_topics] 2(1)
  have "format_knowledge_scope ten_topics =
        py_join [10] (map (\<lambda>topic. bullet @ topic) (take 8 ten_topics)) @
        more_head @ py_str_nat (length ten_topics - 8) @ more_tail"
    by blast
  ultimately show ?thesis by (simp add: 2 py_str_nat_two)
qed

text \<open>
  What the start-up load handles: an absent file, a file that is not valid JSON, and a
  dict whose \<^verbatim>\<open>scope\<close> is missing or not true each give the built-in list.
\<close>

lemma load_knowledge_scope_default:
  assumes "file = Inl FileNotFoundError \<or> file = Inl JSONDecodeError \<or>
           (\<exists>data. file = Inr (ScopeDict data) \<and>
              \<not> truthy (dict_get data (lit ''scope'') (PyList [])))"
  shows "load_knowledge_scope file self =
           Inr (self\<lparr>knowledge_scope := PyList default_knowledge_scope\<rparr>)"
  using assms
  by (auto simp: load_knowledge_scope_def create_default_knowledge_scope_def)

text \<open>
  C9 does not hold of the code for every malformed file. A scope file that parses but
  is not a dict (a JSON list, say) has no \<^verbatim>\<open>get\<close>; a file that is not valid UTF-8
  raises a \<^verbatim>\<open>UnicodeDecodeError\<close>; a numeric \<^verbatim>\<open>scope\<close> has no \<^verbatim>\<open>len\<close>. None of
  these exceptions is handled by \<^verbatim>\<open>_load_knowledge_scope\<close>, so start-up fails instead of
  falling back to the built-in list.
\<close>

theorem startup_fails_on_malformed_scope_file:
  "init_backend (filled_store_startup (Inr NotADict)) = Inl AttributeError \<and>
   init_backend (filled_store_startup (Inl UnicodeDecodeError)) = Inl UnicodeDecodeError \<and>
   init_backend (filled_store_startup (Inr (ScopeDict [(lit ''scope'', PyNumber True)])))
     = Inl TypeError"
  by (simp add: init_backend_def filled_store_startup_def initialize_llms_def
      initialize_retriever_def load_knowledge_scope_def dict_get_def)

text \<open>
  C10. \<open>reload_knowledge_scope\<close> never falls back to the built-in list. If opening or
  parsing the file raises, or the content has no \<^verbatim>\<open>get\<close>, the backend is unchanged. A
  dict replaces the scope by the value under \<^verbatim>\<open>scope\<close>, the empty list when the key is
  missing or its list is empty. A scope other than the default list stays other than it
  unless the file itself holds the default list.
\<close>

theorem reload_never_substitutes_default:
  "(\<forall>e. file = Inl e \<longrightarrow> reload_knowledge_scope file self = self) \<and>
   (file = Inr NotADict \<longrightarrow> reload_knowledge_scope file self = self) \<and>
   (\<forall>data. file = Inr (ScopeDict data) \<longrightarrow>
      reload_knowledge_scope file self =
        self\<lparr>knowledge_scope := dict_get data (lit ''scope'') (PyList [])\<rparr>) \<and>
   (\<forall>data. file = Inr (ScopeDict data) \<and>
        (map_of data (lit ''scope'') = None \<or> map_of data (lit ''scope'') = Some (PyList [])) \<longrightarrow>
      knowledge_scope (reload_knowledge_scope file self) = PyList []) \<and>
   (knowledge_scope self \<noteq> PyList default_knowledge_scope \<and>
    (\<forall>data. file = Inr (ScopeDict data) \<longrightarrow>
       dict_get data (lit ''scope'') (PyList []) \<noteq> PyList default_knowledge_scope) \<longrightarrow>
      knowledge_scope (reload_knowledge_scope file self) \<noteq> PyList default_knowledge_scope)"
  by (cases "file")
    (auto simp: reload_knowledge_scope_def dict_get_def split: scope_data.splits)

theorem reload_never_substitutes_default_witness:
  "reload_knowledge_scope (Inl FileNotFoundError) wine_backend = wine_backend \<and>
   reload_knowledge_scope (Inl JSONDecodeError) wine_backend = wine_backend \<and>
   knowledge_scope (reload_knowledge_scope (Inr (ScopeDict [])) wine_backend) = PyList [] \<and>
   knowledge_scope (reload_knowledge_scope (Inr (ScopeDict [(lit ''scope'', PyList [])]))
       wine_backend) = PyList [] \<and>
   knowledge_scope (reload_knowledge_scope (Inl FileNotFoundError) wine_backend)
     \<noteq> PyList default_knowledge_scope"
proof -
  have 1: "map_of ([] :: (pystr \<times> scope_value) list) (lit ''scope'') = None"
    "map_of [(lit ''scope'', PyList [])] (lit ''scope'') = Some (PyList [])"
    by simp_all
  have 2: "knowledge_scope wine_backend \<noteq> PyList default_knowledge_scope"
    by (simp add: wine_backend_def default_knowledge_scope_def)
  from reload_never_substitutes_default [of "Inl FileNotFoundError" wine_backend] 2
  have a: "reload_knowledge_scope (Inl FileNotFoundError) wine_backend = wine_backend \<and>
    knowledge_scope (reload_knowledge_scope (Inl FileNotFoundError) wine_backend)
     \<noteq> PyList default_knowledge_scope"
    by simp
  from reload_never_substitutes_default [of "Inl JSONDecodeError" wine_backend]
  have b: "reload_knowledge_scope (Inl JSONDecodeError) wine_backend = wine_backend"
    by simp
  from reload_never_substitutes_default [of "Inr (ScopeDict [])" wine_backend] 1(1)
  have c: "knowledge_scope (reload_knowledge_scope (Inr (ScopeDict [])) wine_backend)
      = PyList []"
    by blast
  from reload_never_substitutes_default
    [of "Inr (ScopeDict [(lit ''scope'', PyList [])])" wine_backend] 1(2)
  have d: "knowledge_scope
      (reload_knowledge_scope (Inr (ScopeDict [(lit ''scope'', PyList [])])) wine_backend)
      = PyList []"
    by blast
  from a b c d show ?thesis by blast
qed

end
